theory Spec2Isabelle
  imports Complex_Main "HOL-Library.Sublist"
begin

section \<open>Python values and text\<close>

text \<open>
  The program is \<^verbatim>\<open>scripts/analyze_doc.py\<close>. Its texts are Python \<^verbatim>\<open>str\<close>
  values: sequences of Unicode code points. A text is modelled as the list of its
  code points, so that \<^verbatim>\<open>len\<close>, slicing and \<^verbatim>\<open>strip\<close> count what Python
  counts. \<open>u\<close> writes an ASCII literal; other characters are given by number
  (10 is the newline, 34 the double quote, 39 the apostrophe, 92 the backslash,
  96 the backquote, 8211 the en dash and 8212 the em dash).
\<close>

type_synonym ustr = "nat list"

definition u :: "string \<Rightarrow> ustr" where
  "u s = map of_char s"

text \<open>
  The values \<^verbatim>\<open>json.loads\<close> and \<^verbatim>\<open>yaml.safe_load\<close> build. A \<^verbatim>\<open>dict\<close>
  keeps its insertion order, which the prompt depends on, so it is an association
  list; its keys are texts, as they are in every JSON object and in the schema file
  the program ships with.
\<close>

datatype pyfloat = Finite rat | Infinite bool | NaN

datatype pyval =
    PNone
  | PBool bool
  | PInt int
  | PFloat pyfloat
  | PStr ustr
  | PList "pyval list"
  | PDict "(ustr \<times> pyval) list"

text \<open>
  What ends a run: \<^verbatim>\<open>sys.exit(message)\<close>, and the exceptions Python raises when
  a value has not the type an operation needs.
\<close>

datatype pyerr =
    SystemExit ustr
  | AttributeError
  | KeyError ustr
  | TypeError

definition bind :: "pyerr + 'a \<Rightarrow> ('a \<Rightarrow> pyerr + 'b) \<Rightarrow> pyerr + 'b" where
  "bind m f = (case m of Inl e \<Rightarrow> Inl e | Inr x \<Rightarrow> f x)"



text \<open>\<^verbatim>\<open>sep.join(xs)\<close>\<close>

fun join :: "ustr \<Rightarrow> ustr list \<Rightarrow> ustr" where
  "join sep [] = []"
| "join sep [x] = x"
| "join sep (x # y # ys) = x @ sep @ join sep (y # ys)"

section \<open>Response Extractor\<close>












section \<open>Operations of Python values\<close>

text \<open>Truth of a value, as \<^verbatim>\<open>not x\<close> and \<^verbatim>\<open>if x\<close> test it.\<close>

fun truthy :: "pyval \<Rightarrow> bool" where
  "truthy PNone = False"
| "truthy (PBool b) = b"
| "truthy (PInt i) = (i \<noteq> 0)"
| "truthy (PFloat f) = (f \<noteq> Finite 0)"
| "truthy (PStr s) = (s \<noteq> [])"
| "truthy (PList xs) = (xs \<noteq> [])"
| "truthy (PDict kvs) = (kvs \<noteq> [])"

text \<open>
  \<^verbatim>\<open>d.get(k, dflt)\<close>: only a \<^verbatim>\<open>dict\<close> has the method; on any other value the
  attribute lookup raises.
\<close>

definition py_get :: "pyval \<Rightarrow> ustr \<Rightarrow> pyval \<Rightarrow> pyerr + pyval" where
  "py_get d k dflt =
     (case d of
        PDict kvs \<Rightarrow> Inr (case map_of kvs k of Some v \<Rightarrow> v | None \<Rightarrow> dflt)
      | _ \<Rightarrow> Inl AttributeError)"

text \<open>\<^verbatim>\<open>d.items()\<close> and \<^verbatim>\<open>d.keys()\<close>\<close>

definition py_items :: "pyval \<Rightarrow> pyerr + (ustr \<times> pyval) list" where
  "py_items d = (case d of PDict kvs \<Rightarrow> Inr kvs | _ \<Rightarrow> Inl AttributeError)"

definition py_keys :: "pyval \<Rightarrow> pyerr + ustr list" where
  "py_keys d = (case d of PDict kvs \<Rightarrow> Inr (map fst kvs) | _ \<Rightarrow> Inl AttributeError)"

text \<open>
  \<^verbatim>\<open>d[k]\<close> with a text \<open>k\<close>: a \<^verbatim>\<open>dict\<close> without the key raises \<^verbatim>\<open>KeyError\<close>, and
  every other value raises \<^verbatim>\<open>TypeError\<close> (a list and a text want an integer, the
  rest cannot be subscripted).
\<close>

definition py_subscript :: "pyval \<Rightarrow> ustr \<Rightarrow> pyerr + pyval" where
  "py_subscript d k =
     (case d of
        PDict kvs \<Rightarrow> (case map_of kvs k of Some v \<Rightarrow> Inr v | None \<Rightarrow> Inl (KeyError k))
      | _ \<Rightarrow> Inl TypeError)"

text \<open>
  \<^verbatim>\<open>for x in v\<close>: a list gives its elements, a \<^verbatim>\<open>dict\<close> its keys, a text its
  characters; nothing else can be iterated.
\<close>

fun py_iter :: "pyval \<Rightarrow> pyerr + pyval list" where
  "py_iter (PList xs) = Inr xs"
| "py_iter (PDict kvs) = Inr (map (\<lambda>kv. PStr (fst kv)) kvs)"
| "py_iter (PStr s) = Inr (map (\<lambda>c. PStr [c]) s)"
| "py_iter v = Inl TypeError"

text \<open>
  \<^verbatim>\<open>p in keys\<close> for a \<^verbatim>\<open>set\<close> of texts: the value is hashed first, which a list
  and a \<^verbatim>\<open>dict\<close> refuse; a value that is not a text equals no text.
\<close>

fun py_in_set :: "pyval \<Rightarrow> ustr list \<Rightarrow> pyerr + bool" where
  "py_in_set (PList xs) keys = Inl TypeError"
| "py_in_set (PDict kvs) keys = Inl TypeError"
| "py_in_set (PStr s) keys = Inr (s \<in> set keys)"
| "py_in_set v keys = Inr False"

text \<open>
  A replacement field \<^verbatim>\<open>{v}\<close> of an f-string: a text stands for itself, and any
  other value is formatted by Python's \<^verbatim>\<open>str\<close>, the parameter \<open>fmt\<close>.
\<close>

definition format_val :: "(pyval \<Rightarrow> ustr) \<Rightarrow> pyval \<Rightarrow> ustr" where
  "format_val fmt v = (case v of PStr s \<Rightarrow> s | _ \<Rightarrow> fmt v)"

section \<open>Structural Validator\<close>

definition no_epics_message :: ustr where
  "no_epics_message =
     [10] @ u ''The AI returned no epics. '' @
     u ''The input document may not contain enough structured content, '' @
     u ''or the model may have returned a response in an unexpected format.''"

definition epic_warning :: "(pyval \<Rightarrow> ustr) \<Rightarrow> pyval \<Rightarrow> ustr" where
  "epic_warning fmt sd =
     u ''  Epic '' @ [39] @ format_val fmt sd @ [39] @ u '' has no stories.''"

definition story_warning :: "(pyval \<Rightarrow> ustr) \<Rightarrow> pyval \<Rightarrow> pyval \<Rightarrow> ustr list \<Rightarrow> ustr" where
  "story_warning fmt sd p valid =
     u ''  Story '' @ [39] @ format_val fmt sd @ [39] @ u '' has unknown priority '' @
     [39] @ format_val fmt p @ [39] @ u '' '' @ [8212] @ u '' valid values: '' @
     join (u '', '') valid"

text \<open>
  The body of the inner loop, for one story. \<open>keys\<close> are the elements of
  \<^verbatim>\<open>valid_priorities\<close> and \<open>listed\<close> is the order in which the \<^verbatim>\<open>set\<close> hands
  them to \<^verbatim>\<open>join\<close>; \<open>warnings\<close> is the list the loops append to.
\<close>

definition check_story ::
  "(pyval \<Rightarrow> ustr) \<Rightarrow> ustr list \<Rightarrow> ustr list \<Rightarrow> pyval \<Rightarrow> ustr list \<Rightarrow> pyerr + ustr list" where
  "check_story fmt keys listed story warnings =
     bind (py_get story (u ''priority'') (PStr [])) (\<lambda>p.
     bind (py_in_set p keys) (\<lambda>known.
       if \<not> known then
         bind (py_get story (u ''short_description'') (PStr (u ''?''))) (\<lambda>sd.
           Inr (warnings @ [story_warning fmt sd p listed]))
       else Inr warnings))"

fun check_stories ::
  "(pyval \<Rightarrow> ustr) \<Rightarrow> ustr list \<Rightarrow> ustr list \<Rightarrow> pyval list \<Rightarrow> ustr list \<Rightarrow> pyerr + ustr list" where
  "check_stories fmt keys listed [] warnings = Inr warnings"
| "check_stories fmt keys listed (story # stories) warnings =
     bind (check_story fmt keys listed story warnings)
       (check_stories fmt keys listed stories)"

text \<open>The body of the outer loop, for one epic.\<close>

definition check_epic ::
  "(pyval \<Rightarrow> ustr) \<Rightarrow> ustr list \<Rightarrow> ustr list \<Rightarrow> pyval \<Rightarrow> ustr list \<Rightarrow> pyerr + ustr list" where
  "check_epic fmt keys listed epic warnings =
     bind (py_get epic (u ''stories'') PNone) (\<lambda>st.
     bind (if \<not> truthy st then
             bind (py_get epic (u ''short_description'') (PStr (u ''?''))) (\<lambda>sd.
               Inr (warnings @ [epic_warning fmt sd]))
           else Inr warnings) (\<lambda>warnings1.
     bind (py_get epic (u ''stories'') (PList [])) (\<lambda>st2.
     bind (py_iter st2) (\<lambda>stories.
       check_stories fmt keys listed stories warnings1))))"

fun check_epics ::
  "(pyval \<Rightarrow> ustr) \<Rightarrow> ustr list \<Rightarrow> ustr list \<Rightarrow> pyval list \<Rightarrow> ustr list \<Rightarrow> pyerr + ustr list" where
  "check_epics fmt keys listed [] warnings = Inr warnings"
| "check_epics fmt keys listed (epic # epics) warnings =
     bind (check_epic fmt keys listed epic warnings)
       (check_epics fmt keys listed epics)"

text \<open>
  \<^verbatim>\<open>valid_priorities = set(schema.get("priorities", {}).keys())\<close>: the elements
  of the set, in the order of the schema.
\<close>

definition valid_priorities :: "pyval \<Rightarrow> pyerr + ustr list" where
  "valid_priorities schema =
     bind (py_get schema (u ''priorities'') (PDict [])) py_keys"

text \<open>
  \<^verbatim>\<open>validate_structure(data, schema)\<close>. The result is the list \<^verbatim>\<open>warnings\<close> at the
  end of the loops, which the function then prints; \<^verbatim>\<open>sys.exit\<close> and the
  exceptions are the \<open>Inl\<close> results. A \<^verbatim>\<open>set\<close> of texts has no fixed iteration
  order (it follows the hashes, which change from run to run), so the order in
  which \<^verbatim>\<open>', '.join(valid_priorities)\<close> lists the keys is a parameter,
  \<open>set_order\<close>.
\<close>

definition validate_structure ::
  "(ustr list \<Rightarrow> ustr list) \<Rightarrow> (pyval \<Rightarrow> ustr) \<Rightarrow> pyval \<Rightarrow> pyval \<Rightarrow> pyerr + ustr list" where
  "validate_structure set_order fmt data schema =
     bind (py_get data (u ''epics'') (PList [])) (\<lambda>epics.
       if \<not> truthy epics then Inl (SystemExit no_epics_message)
       else
         bind (valid_priorities schema) (\<lambda>keys.
         bind (py_iter epics) (\<lambda>es.
           check_epics fmt keys (set_order keys) es [])))"

section \<open>Prompt Synthesizer\<close>

text \<open>
  The fixed text of the system prompt, cut at its replacement fields. In the source
  it is one f-string: \<^verbatim>\<open>{{\<close> and \<^verbatim>\<open>}}\<close> stand for one brace, a backslash at the
  end of the first line joins it to the second, and the doubled backslashes of the
  example leave a backslash before each \<^verbatim>\<open>n\<close>.
\<close>

definition prompt_role :: ustr where
  "prompt_role =
     u ''You are a skilled business analyst. Analyse the provided document and '' @
       u ''produce a structured JSON backlog of epics and user stories.'' @ [10] @
     [10] @
     u ''EPIC GROUPING:'' @ [10]"

definition prompt_story_format :: ustr where
  "prompt_story_format =
     [10] @
     [10] @
     u ''STORY FORMAT:'' @ [10]"

definition prompt_description_format :: ustr where
  "prompt_description_format =
     [10] @
     [10] @
     u ''STORY DESCRIPTION FORMAT:'' @ [10]"

definition prompt_acceptance_criteria :: ustr where
  "prompt_acceptance_criteria =
     [10] @
     [10] @
     u ''ACCEPTANCE CRITERIA:'' @ [10]"

definition prompt_priority :: ustr where
  "prompt_priority =
     [10] @
     [10] @
     u ''PRIORITY '' @ [8212] @ u '' use exactly these string keys:'' @ [10]"

definition prompt_output :: ustr where
  "prompt_output =
     [10] @
     [10] @
     u ''OUTPUT '' @ [8212] @
       u '' return ONLY this JSON structure, no markdown fences, no explanation:'' @ [10] @
     u ''{'' @ [10] @
     u ''  '' @ [34] @ u ''epics'' @ [34] @ u '': ['' @ [10] @
     u ''    {'' @ [10] @
     u ''      '' @ [34] @ u ''key'' @ [34] @ u '': '' @ [34] @ u ''snake_case_identifier'' @
       [34] @ u '','' @ [10] @
     u ''      '' @ [34] @ u ''short_description'' @ [34] @ u '': '' @ [34] @
       u ''Epic title (50'' @ [8211] @ u ''80 chars)'' @ [34] @ u '','' @ [10] @
     u ''      '' @ [34] @ u ''description'' @ [34] @ u '': '' @ [34] @
       u ''One-paragraph epic summary'' @ [34] @ u '','' @ [10] @
     u ''      '' @ [34] @ u ''stories'' @ [34] @ u '': ['' @ [10] @
     u ''        {'' @ [10] @
     u ''          '' @ [34] @ u ''gap_id'' @ [34] @ u '': '' @ [34] @ u ''X-1'' @ [34] @
       u '','' @ [10] @
     u ''          '' @ [34] @ u ''short_description'' @ [34] @ u '': '' @ [34] @
       u ''Story title (50'' @ [8211] @ u ''80 chars)'' @ [34] @ u '','' @ [10] @
     u ''          '' @ [34] @ u ''description'' @ [34] @ u '': '' @ [34] @
       u ''Reference line'' @ [92] @ u ''n'' @ [92] @ u ''nUser story sentence.'' @ [92] @
       u ''n'' @ [92] @ u ''nCurrent state: ...'' @ [34] @ u '','' @ [10] @
     u ''          '' @ [34] @ u ''acceptance_criteria'' @ [34] @ u '': ['' @ [10] @
     u ''            '' @ [34] @ u ''First testable criterion'' @ [34] @ u '','' @ [10] @
     u ''            '' @ [34] @ u ''Second testable criterion'' @ [34, 10] @
     u ''          ],'' @ [10] @
     u ''          '' @ [34] @ u ''priority'' @ [34] @ u '': '' @ [34] @ u ''critical'' @
       [34, 10] @
     u ''        }'' @ [10] @
     u ''      ]'' @ [10] @
     u ''    }'' @ [10] @
     u ''  ]'' @ [10] @
     u ''}'' @ [10] @
     [10] @
     u ''RULES:'' @ [10] @
     u ''- Include '' @ [34] @ u ''gap_id'' @ [34] @
       u '' only if a reference ID exists in the source document; omit the field '' @
       u ''otherwise.'' @ [10] @
     u ''- Return ONLY the JSON object '' @ [8212] @
       u '' no markdown code fences, no preamble, no commentary.'' @ [10]"

text \<open>The built-in guidance, the second arguments of the four \<^verbatim>\<open>ai.get\<close> calls.\<close>

definition default_grouping :: ustr where
  "default_grouping = u ''Group related items into 3'' @ [8211] @ u ''7 logical epics.''"

definition default_story_format :: ustr where
  "default_story_format =
     u ''Write each user story as: As a <role>, I want <goal> so that <benefit>.''"

definition default_description_format :: ustr where
  "default_description_format =
     u ''Include a reference ID, the user story, and the current state.''"

definition default_acceptance_criteria :: ustr where
  "default_acceptance_criteria =
     u ''Provide 5'' @ [8211] @ u ''8 specific, testable criteria per story as plain text strings.''"

definition system_prompt_text :: "ustr \<Rightarrow> ustr \<Rightarrow> ustr \<Rightarrow> ustr \<Rightarrow> ustr \<Rightarrow> ustr" where
  "system_prompt_text grouping story_format description_format acceptance_criteria
       priority_block =
     prompt_role @ grouping @
     prompt_story_format @ story_format @
     prompt_description_format @ description_format @
     prompt_acceptance_criteria @ acceptance_criteria @
     prompt_priority @ priority_block @
     prompt_output"

definition user_prompt_text :: "ustr \<Rightarrow> ustr" where
  "user_prompt_text document =
     u ''Analyse the following document and produce the JSON backlog described above.'' @
     [10, 10] @
     u ''--- DOCUMENT START ---'' @ [10] @
     document @ [10] @
     u ''--- DOCUMENT END ---''"

text \<open>
  One element of the generator that \<^verbatim>\<open>"\n".join\<close> consumes:
  \<^verbatim>\<open>f'  - "{key}": {cfg["guidance"]}'\<close>. The subscript has no default.
\<close>

definition priority_entry :: "(pyval \<Rightarrow> ustr) \<Rightarrow> ustr \<Rightarrow> pyval \<Rightarrow> pyerr + ustr" where
  "priority_entry fmt key cfg =
     bind (py_subscript cfg (u ''guidance'')) (\<lambda>guidance.
       Inr (u ''  - '' @ [34] @ key @ [34] @ u '': '' @ format_val fmt guidance))"

fun priority_entries :: "(pyval \<Rightarrow> ustr) \<Rightarrow> (ustr \<times> pyval) list \<Rightarrow> pyerr + ustr list" where
  "priority_entries fmt [] = Inr []"
| "priority_entries fmt ((key, cfg) # items) =
     bind (priority_entry fmt key cfg) (\<lambda>entry.
     bind (priority_entries fmt items) (\<lambda>entries.
       Inr (entry # entries)))"

text \<open>
  \<^verbatim>\<open>priorities = schema.get("priorities", {})\<close> and the \<^verbatim>\<open>priority_block\<close> built
  from its items.
\<close>

definition priority_block :: "(pyval \<Rightarrow> ustr) \<Rightarrow> pyval \<Rightarrow> pyerr + ustr" where
  "priority_block fmt priorities =
     bind (py_items priorities) (\<lambda>items.
     bind (priority_entries fmt items) (\<lambda>entries.
       Inr (join [10] entries)))"

text \<open>
  \<^verbatim>\<open>build_prompt(schema, document)\<close>, in the order Python evaluates it: the two
  chained \<^verbatim>\<open>get\<close> calls for \<^verbatim>\<open>ai\<close>, the priorities and their block, then the
  four instruction fields of the f-string.
\<close>

definition build_prompt :: "(pyval \<Rightarrow> ustr) \<Rightarrow> pyval \<Rightarrow> ustr \<Rightarrow> pyerr + ustr \<times> ustr" where
  "build_prompt fmt schema document =
     bind (py_get schema (u ''ai'') (PDict [])) (\<lambda>ai_section.
     bind (py_get ai_section (u ''instructions'') (PDict [])) (\<lambda>ai.
     bind (py_get schema (u ''priorities'') (PDict [])) (\<lambda>priorities.
     bind (priority_block fmt priorities) (\<lambda>block.
     bind (py_get ai (u ''grouping'') (PStr default_grouping)) (\<lambda>grouping.
     bind (py_get ai (u ''story_format'') (PStr default_story_format)) (\<lambda>story_format.
     bind (py_get ai (u ''description_format'') (PStr default_description_format))
       (\<lambda>description_format.
     bind (py_get ai (u ''acceptance_criteria'') (PStr default_acceptance_criteria))
       (\<lambda>acceptance_criteria.
       Inr (system_prompt_text (format_val fmt grouping) (format_val fmt story_format)
              (format_val fmt description_format) (format_val fmt acceptance_criteria)
              block,
            user_prompt_text document)))))))))"


section \<open>What the specification speaks of\<close>





text \<open>The epics of a backlog, the stories of an epic, and the fields the warnings name.\<close>

definition field :: "pyval \<Rightarrow> ustr \<Rightarrow> pyval option" where
  "field v k = (case v of PDict kvs \<Rightarrow> map_of kvs k | _ \<Rightarrow> None)"






text \<open>
  The Schema Model inside a loaded value: the schema is a mapping, and its
  \<^verbatim>\<open>ai\<close>, \<^verbatim>\<open>ai.instructions\<close> and \<^verbatim>\<open>priorities\<close> entries, where present, are
  mappings; \<open>priority_items\<close> are the entries of the priorities mapping, in the
  order of the file, and \<open>instructions\<close> those of \<^verbatim>\<open>ai.instructions\<close>.
\<close>

definition is_dict :: "pyval \<Rightarrow> bool" where
  "is_dict v = (case v of PDict kvs \<Rightarrow> True | _ \<Rightarrow> False)"

definition section_ok :: "pyval \<Rightarrow> ustr \<Rightarrow> bool" where
  "section_ok v k =
     (case v of
        PDict kvs \<Rightarrow> (case map_of kvs k of None \<Rightarrow> True | Some w \<Rightarrow> is_dict w)
      | _ \<Rightarrow> False)"

definition section_items :: "pyval \<Rightarrow> ustr \<Rightarrow> (ustr \<times> pyval) list" where
  "section_items v k = (case field v k of Some (PDict kvs) \<Rightarrow> kvs | _ \<Rightarrow> [])"

definition priority_items :: "pyval \<Rightarrow> (ustr \<times> pyval) list" where
  "priority_items schema = section_items schema (u ''priorities'')"

definition instructions :: "pyval \<Rightarrow> (ustr \<times> pyval) list" where
  "instructions schema =
     section_items (PDict (section_items schema (u ''ai''))) (u ''instructions'')"

definition schema_shaped :: "pyval \<Rightarrow> bool" where
  "schema_shaped schema \<longleftrightarrow>
     section_ok schema (u ''ai'') \<and>
     section_ok (PDict (section_items schema (u ''ai''))) (u ''instructions'') \<and>
     section_ok schema (u ''priorities'') \<and>
     list_all (\<lambda>item. is_dict (snd item)) (priority_items schema)"

definition has_guidance :: "ustr \<times> pyval \<Rightarrow> bool" where
  "has_guidance item = (field (snd item) (u ''guidance'') \<noteq> None)"



text \<open>
  The instruction text the specification asks for in the system prompt: the
  schema's, or the built-in one when the key is missing.
\<close>

definition instruction_text :: "(pyval \<Rightarrow> ustr) \<Rightarrow> pyval \<Rightarrow> ustr \<Rightarrow> ustr \<Rightarrow> ustr" where
  "instruction_text fmt schema k dflt =
     (case map_of (instructions schema) k of None \<Rightarrow> dflt | Some v \<Rightarrow> format_val fmt v)"







text \<open>
  The entry of the priority block the specification asks for, for one item of the
  priorities mapping.
\<close>

definition expected_entry :: "(pyval \<Rightarrow> ustr) \<Rightarrow> ustr \<times> pyval \<Rightarrow> ustr" where
  "expected_entry fmt item =
     u ''  - '' @ [34] @ fst item @ [34] @ u '': '' @
     (case field (snd item) (u ''guidance'') of Some g \<Rightarrow> format_val fmt g | None \<Rightarrow> [])"

text \<open>
  Values for the closed examples: a schema with three priorities, a backlog with
  an epic without stories and a story of unknown priority, the text of a small
  backlog and a decoder that knows it, the \<^verbatim>\<open>str\<close> of values that are not texts
  (the examples format none), and a set that lists its elements in the order of
  the schema.
\<close>

definition sample_schema :: pyval where
  "sample_schema =
     PDict [(u ''ai'', PDict [(u ''instructions'', PDict
               [(u ''grouping'', PStr (u ''Group by module.''))])]),
            (u ''priorities'', PDict
               [(u ''critical'', PDict [(u ''guidance'', PStr (u ''Blocks go-live'')),
                                        (u ''label'', PStr (u ''1 - Critical''))]),
                (u ''high'', PDict [(u ''guidance'', PStr (u ''Needed soon'')),
                                    (u ''label'', PStr (u ''2 - High''))]),
                (u ''low'', PDict [(u ''guidance'', PStr (u ''Nice to have'')),
                                   (u ''label'', PStr (u ''4 - Low''))])])]"









definition schema_without_guidance :: pyval where
  "schema_without_guidance =
     PDict [(u ''priorities'', PDict
       [(u ''high'', PDict [(u ''label'', PStr (u ''2 - High''))])])]"






definition str_unused :: "pyval \<Rightarrow> ustr" where
  "str_unused v = []"

definition schema_order :: "ustr list \<Rightarrow> ustr list" where
  "schema_order keys = keys"

section \<open>Evaluation\<close>



lemma bind_Inr [simp]: "bind (Inr x) f = f x"
  by (simp add: bind_def)

lemma bind_Inl [simp]: "bind (Inl e) f = Inl e"
  by (simp add: bind_def)

lemma bind_eq_Inr: "bind m f = Inr y \<longleftrightarrow> (\<exists>x. m = Inr x \<and> f x = Inr y)"
  by (cases m) simp_all

section \<open>Response Extractor: parse failures\<close>



section \<open>Structural Validator: the missing key\<close>

text \<open>
  Claim C9. A parsed JSON object without the key \<^verbatim>\<open>epics\<close> is a backlog with no
  epics: \<open>validate_structure\<close> ends the run with the message of the empty backlog,
  and the result is the one it gives for the same object with an empty list under
  \<^verbatim>\<open>epics\<close>, whatever the schema.
\<close>

theorem missing_epics_key_is_empty_backlog:
  "map_of kvs (u ''epics'') = None \<Longrightarrow>
     validate_structure set_order fmt (PDict kvs) schema =
       Inl (SystemExit no_epics_message) \<and>
     validate_structure set_order fmt (PDict ((u ''epics'', PList []) # kvs)) schema =
       validate_structure set_order fmt (PDict kvs) schema"
  by (simp add: validate_structure_def py_get_def)

theorem missing_epics_key_is_empty_backlog_witness:
  "map_of [(u ''title'', PStr (u ''x''))] (u ''epics'') = None \<and>
   validate_structure schema_order str_unused (PDict [(u ''title'', PStr (u ''x''))])
       sample_schema =
     Inl (SystemExit no_epics_message) \<and>
   validate_structure schema_order str_unused
       (PDict [(u ''epics'', PList []), (u ''title'', PStr (u ''x''))]) sample_schema =
     validate_structure schema_order str_unused (PDict [(u ''title'', PStr (u ''x''))])
       sample_schema"
proof -
  have "map_of [(u ''title'', PStr (u ''x''))] (u ''epics'') = None"
    by (simp add: u_def)
  from this missing_epics_key_is_empty_backlog [OF this, of schema_order str_unused sample_schema]
  show ?thesis
    by simp
qed

section \<open>The backlog that is written\<close>



section \<open>Prompt Synthesizer: determinism\<close>



section \<open>Prompt Synthesizer on a schema of the expected shape\<close>

lemma section_get:
  "section_ok v k \<Longrightarrow> py_get v k (PDict []) = Inr (PDict (section_items v k))"
  by (auto simp: section_ok_def py_get_def section_items_def field_def is_dict_def
      split: pyval.splits option.splits)

lemma priority_entry_dict:
  "is_dict cfg \<Longrightarrow>
     priority_entry fmt key cfg =
       (if has_guidance (key, cfg) then Inr (expected_entry fmt (key, cfg))
        else Inl (KeyError (u ''guidance'')))"
  by (auto simp: priority_entry_def py_subscript_def has_guidance_def expected_entry_def
      field_def is_dict_def split: pyval.splits option.splits)

lemma priority_entries_dicts:
  "list_all (\<lambda>item. is_dict (snd item)) items \<Longrightarrow>
     priority_entries fmt items =
       (if list_all has_guidance items then Inr (map (expected_entry fmt) items)
        else Inl (KeyError (u ''guidance'')))"
proof (induction items)
  case Nil
  show ?case by simp
next
  case (Cons item items)
  obtain key cfg where item: "item = (key, cfg)"
    by (cases item)
  from Cons.prems item have "is_dict cfg"
    and rest: "list_all (\<lambda>item. is_dict (snd item)) items"
    by simp_all
  then show ?case
    using Cons.IH [OF rest] by (simp add: item priority_entry_dict)
qed

lemma build_prompt_shaped:
  assumes "schema_shaped schema"
  shows "build_prompt fmt schema document =
     (if list_all has_guidance (priority_items schema) then
        Inr (system_prompt_text
               (instruction_text fmt schema (u ''grouping'') default_grouping)
               (instruction_text fmt schema (u ''story_format'') default_story_format)
               (instruction_text fmt schema (u ''description_format'')
                  default_description_format)
               (instruction_text fmt schema (u ''acceptance_criteria'')
                  default_acceptance_criteria)
               (join [10] (map (expected_entry fmt) (priority_items schema))),
             user_prompt_text document)
      else Inl (KeyError (u ''guidance'')))"
proof -
  from assms
  have ai: "py_get schema (u ''ai'') (PDict []) = Inr (PDict (section_items schema (u ''ai'')))"
    and ins: "py_get (PDict (section_items schema (u ''ai''))) (u ''instructions'') (PDict []) =
        Inr (PDict (instructions schema))"
    and pr: "py_get schema (u ''priorities'') (PDict []) = Inr (PDict (priority_items schema))"
    and dicts: "list_all (\<lambda>item. is_dict (snd item)) (priority_items schema)"
    by (simp_all add: schema_shaped_def section_get instructions_def priority_items_def)
  have block: "priority_block fmt (PDict (priority_items schema)) =
      (if list_all has_guidance (priority_items schema)
       then Inr (join [10] (map (expected_entry fmt) (priority_items schema)))
       else Inl (KeyError (u ''guidance'')))"
    by (simp add: priority_block_def py_items_def priority_entries_dicts [OF dicts])
  show ?thesis
    unfolding build_prompt_def ai ins pr bind_Inr block
    by (simp add: py_get_def instruction_text_def format_val_def split: option.splits)
qed

lemma sample_schema_shaped: "schema_shaped sample_schema"
  by (simp add: schema_shaped_def sample_schema_def section_ok_def section_items_def
      field_def is_dict_def priority_items_def u_def)

lemma sample_schema_guidance: "list_all has_guidance (priority_items sample_schema)"
  by (simp add: has_guidance_def sample_schema_def section_items_def field_def
      priority_items_def u_def)




lemma priority_entries_guidance:
  "priority_entries fmt items = Inr entries \<Longrightarrow> list_all has_guidance items"
proof (induction items arbitrary: entries)
  case Nil
  show ?case by simp
next
  case (Cons item items)
  obtain key cfg where item: "item = (key, cfg)" by (cases item)
  from Cons.prems obtain entry rest where
    e: "priority_entry fmt key cfg = Inr entry" and r: "priority_entries fmt items = Inr rest"
    by (auto simp: item bind_eq_Inr)
  from e have "has_guidance (key, cfg)"
    by (auto simp: priority_entry_def py_subscript_def has_guidance_def field_def bind_eq_Inr
        split: pyval.splits option.splits)
  with Cons.IH [OF r] show ?case by (simp add: item)
qed

lemma build_prompt_needs_guidance:
  assumes "build_prompt fmt schema document = Inr prompts"
  shows "list_all has_guidance (priority_items schema)"
proof -
  from assms obtain priorities block where
    pr: "py_get schema (u ''priorities'') (PDict []) = Inr priorities"
    and bl: "priority_block fmt priorities = Inr block"
    by (auto simp: build_prompt_def bind_eq_Inr)
  from bl obtain items entries where items: "py_items priorities = Inr items"
    and es: "priority_entries fmt items = Inr entries"
    by (auto simp: priority_block_def bind_eq_Inr)
  from items have "priorities = PDict items"
    by (simp add: py_items_def split: pyval.splits)
  with pr have "priority_items schema = items"
    by (auto simp: py_get_def priority_items_def section_items_def field_def
        split: pyval.splits option.splits)
  with priority_entries_guidance [OF es] show ?thesis by simp
qed

text \<open>
  Claim C10. The priority block subscripts \<^verbatim>\<open>cfg["guidance"]\<close> with no default,
  where every other access to the schema is a \<^verbatim>\<open>get\<close> with one. So
  \<open>build_prompt\<close> returns its prompts only if every record of the priorities
  mapping has the key \<^verbatim>\<open>guidance\<close>; on a schema whose sections are mappings that
  is all it needs, and a record without the key makes the call raise \<^verbatim>\<open>KeyError\<close>
  for it, as it does on the schema of the example.
\<close>

theorem build_prompt_total_only_with_guidance:
  "((\<exists>prompts. build_prompt fmt schema document = Inr prompts) \<longrightarrow>
      list_all has_guidance (priority_items schema)) \<and>
   (schema_shaped schema \<longrightarrow>
      (list_all has_guidance (priority_items schema) \<longrightarrow>
         (\<exists>prompts. build_prompt fmt schema document = Inr prompts)) \<and>
      (\<not> list_all has_guidance (priority_items schema) \<longrightarrow>
         build_prompt fmt schema document = Inl (KeyError (u ''guidance'')))) \<and>
   \<not> list_all has_guidance (priority_items schema_without_guidance) \<and>
   build_prompt fmt schema_without_guidance document = Inl (KeyError (u ''guidance''))"
proof -
  have shaped: "schema_shaped schema_without_guidance"
    by (simp add: schema_shaped_def schema_without_guidance_def section_ok_def
        section_items_def field_def is_dict_def priority_items_def u_def)
  have lacking: "\<not> list_all has_guidance (priority_items schema_without_guidance)"
    by (simp add: has_guidance_def schema_without_guidance_def section_items_def field_def
        priority_items_def u_def)
  have "build_prompt fmt schema_without_guidance document = Inl (KeyError (u ''guidance''))"
    using build_prompt_shaped [OF shaped, of fmt document] lacking by simp
  moreover have "schema_shaped schema \<Longrightarrow>
      build_prompt fmt schema document =
        (if list_all has_guidance (priority_items schema)
         then build_prompt fmt schema document else Inl (KeyError (u ''guidance'')))"
    using build_prompt_shaped [of schema fmt document] by simp
  moreover have "schema_shaped schema \<Longrightarrow> list_all has_guidance (priority_items schema) \<Longrightarrow>
      \<exists>prompts. build_prompt fmt schema document = Inr prompts"
    using build_prompt_shaped [of schema fmt document] by simp
  ultimately show ?thesis
    using lacking build_prompt_needs_guidance [of fmt schema document] by metis
qed

theorem build_prompt_total_only_with_guidance_witness:
  "schema_shaped sample_schema \<and>
   list_all has_guidance (priority_items sample_schema) \<and>
   (\<exists>prompts. build_prompt str_unused sample_schema (u ''As-is: manual entry.'') =
      Inr prompts) \<and>
   \<not> list_all has_guidance (priority_items schema_without_guidance) \<and>
   build_prompt str_unused schema_without_guidance (u ''As-is: manual entry.'') =
     Inl (KeyError (u ''guidance''))"
  using build_prompt_total_only_with_guidance
          [of str_unused sample_schema "u ''As-is: manual entry.''"]
        sample_schema_shaped sample_schema_guidance
  by simp

section \<open>Structural Validator on a backlog of the expected shape\<close>


















section \<open>The priority vocabulary\<close>










section \<open>Response Extractor: the fences\<close>



























end
